theory Spec2Isabelle
  imports Complex_Main "HOL-Library.Sublist"
begin

section \<open>Python strings\<close>

text \<open>
  A Python \<open>str\<close> is a sequence of Unicode code points: \<open>len\<close>, indexing and the
  \<open>re\<close> module all count code points. The literals of \<open>a.py\<close> contain code points
  beyond one byte (the emoji of the status and error messages), so a string is modelled
  as the list of its code points. \<open>lit\<close> embeds an ASCII literal.
\<close>

type_synonym pystr = "nat list"

definition lit :: "string \<Rightarrow> pystr" where
  "lit s = map of_char s"

definition str_bool :: "bool \<Rightarrow> pystr" where
  \<comment> \<open>what an f-string prints for a \<open>bool\<close>\<close>
  "str_bool b = (if b then lit ''True'' else lit ''False'')"

section \<open>The external collaborators\<close>

text \<open>
  \<open>ChatOpenAI\<close>, \<open>BrowserConfig\<close>/\<open>Browser\<close> and \<open>Agent\<close> are constructed from keyword
  arguments; each is the record of the arguments \<open>a.py\<close> passes.
\<close>

record chat_openai =
  base_url :: pystr
  llm_model :: pystr
  llm_api_key :: pystr
  default_headers :: "(pystr \<times> pystr) list"
  temperature :: real

record browser_config =
  cfg_headless :: bool

record agent_args =
  agent_task :: pystr
  agent_llm :: chat_openai
  agent_browser :: browser_config
  use_vision :: bool
  max_failures :: nat
  max_actions_per_step :: nat

text \<open>
  A raised Python exception, as far as \<open>a.py\<close> looks at it: whether it is an instance
  of class \<open>Exception\<close> (what \<open>except Exception\<close> tests; \<open>KeyboardInterrupt\<close>,
  \<open>SystemExit\<close> and \<open>asyncio.CancelledError\<close> derive from \<open>BaseException\<close> only),
  and what \<open>str(e)\<close> gives.
\<close>

datatype pyexc = PyExc (isinstance_Exception: bool) (str_exc: pystr)

text \<open>
  The agent history, as far as \<open>a.py\<close> reads it: \<open>history.final_result()\<close> gives an
  optional string (\<open>Inr\<close>) or raises (\<open>Inl\<close>).
\<close>

datatype history = History (final_result: "pyexc + pystr option")

text \<open>What \<open>await agent.run()\<close> does: it returns a history or it raises.\<close>

datatype run_outcome = Run_returns history | Run_raises pyexc

text \<open>
  The calls \<open>run_agent_with_debug\<close> makes on the outside world, in the order it makes
  them. The trace lists every call that is made; a call that raises is the last of its
  trace.
\<close>

datatype effect =
    New_ChatOpenAI chat_openai
  | New_Browser browser_config
  | New_Agent agent_args
  | Status_info pystr
  | Await_agent_run
  | History_final_result
  | Await_browser_close

text \<open>
  What the outside world does. Every external call of \<open>run_agent_with_debug\<close> may
  raise, depending on its arguments: for the constructors, \<open>status_box.info\<close> and
  \<open>browser.close()\<close> the world gives the exception raised (\<open>None\<close> when the call
  returns), for \<open>agent.run()\<close> its outcome. \<open>main\<close> also reads the platform name and
  what the agent printed.
\<close>

record world =
  chat_openai_raises :: "chat_openai \<Rightarrow> pyexc option"
  browser_raises :: "browser_config \<Rightarrow> pyexc option"
  agent_raises :: "agent_args \<Rightarrow> pyexc option"
  info_raises :: "pystr \<Rightarrow> pyexc option"
  agent_run :: "agent_args \<Rightarrow> run_outcome"
  close_raises :: "browser_config \<Rightarrow> pyexc option"
  platform_system :: pystr
  captured_stdout :: pystr

section \<open>\<open>run_agent_with_debug\<close>\<close>

subsection \<open>Step 2: the model and its temperature\<close>

definition configure_model :: "pystr \<Rightarrow> pystr \<times> real" where
  "configure_model model_choice =
     (if model_choice = lit ''Claude'' then
        (lit ''meta-llama/llama-3.3-70b-instruct:free'', 0.7)
      else if model_choice = lit ''Deepseek'' then
        (lit ''nex-agi/deepseek-v3.1-nex-n1:free'', 0.3)
      else
        (lit ''openai/gpt-oss-120b:free'', 0.1))"

text \<open>
  The spec describes the selection as a lookup table keyed by the UI selection, with
  the third configuration for every key that is not in the table.
\<close>

definition spec_model_table :: "(pystr \<times> (pystr \<times> real)) list" where
  "spec_model_table =
     [(lit ''Claude'', (lit ''meta-llama/llama-3.3-70b-instruct:free'', 0.7)),
      (lit ''Deepseek'', (lit ''nex-agi/deepseek-v3.1-nex-n1:free'', 0.3))]"

definition spec_model_lookup :: "pystr \<Rightarrow> pystr \<times> real" where
  "spec_model_lookup key =
     (case map_of spec_model_table key of
        Some cfg \<Rightarrow> cfg
      | None \<Rightarrow> (lit ''openai/gpt-oss-120b:free'', 0.1))"

subsection \<open>Step 3: the task\<close>

text \<open>
  The task is a concatenation of adjacent string literals. Only the first literal
  carries the \<open>f\<close> prefix, so only there is \<open>{query}\<close> a replacement field; in the
  literal of step 2 the characters \<open>{query}\<close> are ordinary text.
\<close>

definition task_of :: "pystr \<Rightarrow> pystr" where
  "task_of query =
     lit ''Generate a meme about: '' @ [0x27] @ query @ [0x27] @ lit ''.\<newline>''
     @ lit ''STRICT STEPS:\<newline>''
     @ lit ''1. GO TO 'https://imgflip.com/memetemplates'.\<newline>''
     @ lit ''2. TYPE a simple keyword related to '{query}' into the search box.\<newline>''
     @ lit ''3. CLICK on the first matching template image.\<newline>''
     @ lit ''4. WAIT for the 'Caption this Meme' button or text boxes to load.\<newline>''
     @ lit ''5. CLICK inside the Top Text box and TYPE a setup.\<newline>''
     @ lit ''6. CLICK inside the Bottom Text box and TYPE a punchline.\<newline>''
     @ lit ''7. CLICK 'Generate Meme'.\<newline>''
     @ lit ''8. EXTRACT and RETURN the image URL starting with 'https://i.imgflip.com'.\<newline>''"

subsection \<open>Steps 1, 2 and 4: the arguments of the constructors\<close>

definition make_llm :: "pystr \<Rightarrow> pystr \<Rightarrow> chat_openai" where
  "make_llm model_choice api_key =
     (let headers = [(lit ''HTTP-Referer'', lit ''http://localhost:8501''),
                     (lit ''X-Title'', lit ''MemeGen Debug'')];
          (model, temp) = configure_model model_choice
      in \<lparr>base_url = lit ''https://openrouter.ai/api/v1'', llm_model = model,
          llm_api_key = api_key, default_headers = headers, temperature = temp\<rparr>)"

definition make_agent :: "pystr \<Rightarrow> chat_openai \<Rightarrow> browser_config \<Rightarrow> agent_args" where
  "make_agent task llm browser =
     \<lparr>agent_task = task, agent_llm = llm, agent_browser = browser,
      use_vision = False, max_failures = 3, max_actions_per_step = 1\<rparr>"

definition launch_info :: "bool \<Rightarrow> pystr" where
  "launch_info headless =
     [0x1F680] @ lit '' Launching Browser (Headless: '' @ str_bool headless @ lit '')...''"

subsection \<open>The calls before the \<open>try\<close> statement\<close>

text \<open>
  \<open>ChatOpenAI(...)\<close>, \<open>Browser(...)\<close>, \<open>Agent(...)\<close> and \<open>status_box.info(...)\<close> are called
  in this order, outside any handler: the first that raises ends the function with its
  exception. The result is the trace and that exception, if any.
\<close>

definition setup_calls ::
  "world \<Rightarrow> chat_openai \<Rightarrow> browser_config \<Rightarrow> agent_args \<Rightarrow> pystr
     \<Rightarrow> effect list \<times> pyexc option" where
  "setup_calls env llm browser agent info =
     (case chat_openai_raises env llm of
        Some e \<Rightarrow> ([New_ChatOpenAI llm], Some e)
      | None \<Rightarrow>
     (case browser_raises env browser of
        Some e \<Rightarrow> ([New_ChatOpenAI llm, New_Browser browser], Some e)
      | None \<Rightarrow>
     (case agent_raises env agent of
        Some e \<Rightarrow> ([New_ChatOpenAI llm, New_Browser browser, New_Agent agent], Some e)
      | None \<Rightarrow>
     (case info_raises env info of
        Some e \<Rightarrow>
          ([New_ChatOpenAI llm, New_Browser browser, New_Agent agent, Status_info info],
           Some e)
      | None \<Rightarrow>
          ([New_ChatOpenAI llm, New_Browser browser, New_Agent agent, Status_info info],
           None)))))"

subsection \<open>The \<open>try\<close> statement\<close>

text \<open>
  The body assigns \<open>final_result\<close> when \<open>agent.run()\<close> and \<open>history.final_result()\<close>
  both return. \<open>except Exception\<close> handles an instance of \<open>Exception\<close> raised by either
  by appending \<open>str(e)\<close> to \<open>errors\<close>; any other exception stays in flight (\<open>Inl\<close>).
\<close>

definition try_except ::
  "world \<Rightarrow> agent_args \<Rightarrow> effect list \<times> (pyexc + pystr option \<times> pystr list)" where
  "try_except env agent =
     (let final_result0 = None;
          errors0 = []
      in case agent_run env agent of
           Run_raises e \<Rightarrow>
             ([Await_agent_run],
              if isinstance_Exception e then Inr (final_result0, errors0 @ [str_exc e])
              else Inl e)
         | Run_returns history \<Rightarrow>
             (case final_result history of
                Inr v \<Rightarrow> ([Await_agent_run, History_final_result], Inr (v, errors0))
              | Inl e \<Rightarrow>
                  ([Await_agent_run, History_final_result],
                   if isinstance_Exception e then Inr (final_result0, errors0 @ [str_exc e])
                   else Inl e)))"

text \<open>
  \<open>finally\<close> awaits \<open>browser.close()\<close> whatever the \<open>try\<close> and \<open>except\<close> clauses did. If
  the close raises, its exception leaves the function; otherwise what was pending goes
  on: the exception in flight, or the \<open>return\<close> of the pair.
\<close>

definition finally_close ::
  "world \<Rightarrow> browser_config \<Rightarrow> pyexc + pystr option \<times> pystr list
     \<Rightarrow> effect list \<times> (pyexc + pystr option \<times> pystr list)" where
  "finally_close env browser pending =
     ([Await_browser_close],
      case close_raises env browser of
        Some c \<Rightarrow> Inl c
      | None \<Rightarrow> pending)"

subsection \<open>The whole function\<close>

text \<open>
  The result is the trace of calls together with either the exception that leaves the
  function (\<open>Inl\<close>) or the returned pair \<open>(final_result, errors)\<close> (\<open>Inr\<close>).
\<close>

definition run_agent_with_debug ::
  "world \<Rightarrow> pystr \<Rightarrow> pystr \<Rightarrow> pystr \<Rightarrow> bool
     \<Rightarrow> effect list \<times> (pyexc + pystr option \<times> pystr list)" where
  "run_agent_with_debug env query model_choice api_key headless =
     (let llm = make_llm model_choice api_key;
          task = task_of query;
          browser = \<lparr>cfg_headless = headless\<rparr>;
          agent = make_agent task llm browser;
          info = launch_info headless;
          (t1, raised) = setup_calls env llm browser agent info
      in case raised of
           Some e \<Rightarrow> (t1, Inl e)
         | None \<Rightarrow>
             (let (t2, pending) = try_except env agent;
                  (t3, outcome) = finally_close env browser pending
              in (t1 @ t2 @ t3, outcome)))"

text \<open>
  The agent the function builds from its arguments, the trace of the four calls before
  the \<open>try\<close> statement, and the condition that all four return.
\<close>

definition the_agent :: "pystr \<Rightarrow> pystr \<Rightarrow> pystr \<Rightarrow> bool \<Rightarrow> agent_args" where
  "the_agent query model_choice api_key headless =
     make_agent (task_of query) (make_llm model_choice api_key) \<lparr>cfg_headless = headless\<rparr>"

definition setup_trace :: "pystr \<Rightarrow> pystr \<Rightarrow> pystr \<Rightarrow> bool \<Rightarrow> effect list" where
  "setup_trace query model_choice api_key headless =
     [New_ChatOpenAI (make_llm model_choice api_key),
      New_Browser \<lparr>cfg_headless = headless\<rparr>,
      New_Agent (the_agent query model_choice api_key headless),
      Status_info (launch_info headless)]"

definition setup_returns :: "world \<Rightarrow> pystr \<Rightarrow> pystr \<Rightarrow> pystr \<Rightarrow> bool \<Rightarrow> bool" where
  "setup_returns env query model_choice api_key headless \<longleftrightarrow>
     chat_openai_raises env (make_llm model_choice api_key) = None
     \<and> browser_raises env \<lparr>cfg_headless = headless\<rparr> = None
     \<and> agent_raises env (the_agent query model_choice api_key headless) = None
     \<and> info_raises env (launch_info headless) = None"

section \<open>\<open>re.search\<close> with the pattern of \<open>main\<close>\<close>

text \<open>
  The pattern \<open>(https://i\.imgflip\.com/\w+\.jpg)\<close> is a literal, one or more word
  characters, and a literal; its only group is the whole pattern, so \<open>group(1)\<close> is
  the matched text. Which code points \<open>\w\<close> accepts is a table of the \<open>re\<close> module
  (the Unicode alphanumerics and the underscore); the matcher takes it as the
  parameter \<open>w\<close>. \<open>ascii_word\<close> is the part of that table below 128.
\<close>

definition ascii_word :: "nat \<Rightarrow> bool" where
  "ascii_word c \<longleftrightarrow>
     (0x30 \<le> c \<and> c \<le> 0x39) \<or> (0x41 \<le> c \<and> c \<le> 0x5A) \<or> c = 0x5F
     \<or> (0x61 \<le> c \<and> c \<le> 0x7A)"

definition url_prefix :: pystr where
  "url_prefix = lit ''https://i.imgflip.com/''"

definition url_suffix :: pystr where
  "url_suffix = lit ''.jpg''"

text \<open>Matching a literal at the start of the text gives the rest of the text.\<close>

fun match_literal :: "pystr \<Rightarrow> pystr \<Rightarrow> pystr option" where
  "match_literal [] s = Some s"
| "match_literal (p # ps) [] = None"
| "match_literal (p # ps) (c # cs) = (if p = c then match_literal ps cs else None)"

text \<open>
  \<open>\w+\.jpg\<close> at the start of the text, giving the matched text. The \<open>+\<close> is greedy
  and backtracks: after a word character the matcher first tries to take more of them,
  and only if the rest of the pattern fails that way does it try the literal here.
\<close>

fun match_word_plus :: "(nat \<Rightarrow> bool) \<Rightarrow> pystr \<Rightarrow> pystr option" where
  "match_word_plus w [] = None"
| "match_word_plus w (c # cs) =
     (if w c then
        (case match_word_plus w cs of
           Some m \<Rightarrow> Some (c # m)
         | None \<Rightarrow>
             (case match_literal url_suffix cs of
                Some rest \<Rightarrow> Some (c # url_suffix)
              | None \<Rightarrow> None))
      else None)"

definition match_here :: "(nat \<Rightarrow> bool) \<Rightarrow> pystr \<Rightarrow> pystr option" where
  "match_here w s =
     (case match_literal url_prefix s of
        None \<Rightarrow> None
      | Some rest \<Rightarrow> map_option (\<lambda>m. url_prefix @ m) (match_word_plus w rest))"

text \<open>\<open>re.search\<close> tries every start position from the left and stops at the first match.\<close>

fun re_search :: "(nat \<Rightarrow> bool) \<Rightarrow> pystr \<Rightarrow> pystr option" where
  "re_search w [] = match_here w []"
| "re_search w (c # cs) =
     (case match_here w (c # cs) of
        Some m \<Rightarrow> Some m
      | None \<Rightarrow> re_search w cs)"



section \<open>\<open>main\<close>\<close>

text \<open>
  The calls \<open>main\<close> makes on the UI framework that display something, in order,
  together with the one call of \<open>run_agent_with_debug\<close> (its arguments and the trace of
  the call). \<open>st.stop()\<close> ends the script run.
\<close>

datatype st_call =
    St_set_page_config pystr pystr
  | St_title pystr
  | St_header pystr
  | St_error pystr
  | St_stop
  | St_empty
  | St_expander pystr
  | St_spinner pystr
  | Asyncio_run pystr pystr pystr bool "effect list"
  | St_code pystr
  | St_json "pystr list"
  | St_success pystr
  | St_markdown pystr
  | St_image pystr
  | St_warning pystr

text \<open>
  The input widgets return what the session holds for their key. A text input or a
  checkbox the user has not touched (\<open>None\<close>) returns its default; the select box
  holds the index of one of its options; the button is \<open>True\<close> in the run its click
  causes.
\<close>

record session =
  api_key_input :: "pystr option"
  model_select :: nat
  headless_check :: "bool option"
  meme_query_input :: "pystr option"
  run_button :: bool

definition text_input :: "pystr \<Rightarrow> pystr option \<Rightarrow> pystr" where
  "text_input dflt held = (case held of None \<Rightarrow> dflt | Some v \<Rightarrow> v)"

definition checkbox :: "bool \<Rightarrow> bool option \<Rightarrow> bool" where
  "checkbox dflt held = (case held of None \<Rightarrow> dflt | Some v \<Rightarrow> v)"

definition selectbox :: "pystr list \<Rightarrow> nat \<Rightarrow> pystr" where
  "selectbox options i = options ! i"

definition model_options :: "pystr list" where
  "model_options = [lit ''Deepseek'', lit ''Claude'', lit ''OpenAI'']"

subsection \<open>Rendering the returned pair\<close>

definition crash_message :: pystr where
  "crash_message = [0x1F4A5] @ lit '' The Agent crashed!''"

definition no_result_message :: pystr where
  "no_result_message = lit ''Agent finished but returned no result.''"

definition no_image_message :: pystr where
  "no_image_message = lit ''No image link found in result.''"

text \<open>
  \<open>if errors:\<close> and \<open>if result:\<close> test truthiness: a list is true when it is not
  empty, an optional string when it is neither \<open>None\<close> nor the empty string. A match
  object is always true.
\<close>

definition render_result :: "(nat \<Rightarrow> bool) \<Rightarrow> pystr option \<Rightarrow> pystr list \<Rightarrow> st_call list" where
  "render_result w result errors =
     (if errors \<noteq> [] then [St_error crash_message, St_json errors] else [])
     @ (case result of
          None \<Rightarrow> [St_warning no_result_message]
        | Some r \<Rightarrow>
            if r \<noteq> [] then
              [St_success (lit ''Agent Finished!''),
               St_markdown (lit ''### Result:\<newline>'' @ r)]
              @ (case re_search w r of
                   Some url \<Rightarrow> [St_image url]
                 | None \<Rightarrow> [St_warning no_image_message])
            else [St_warning no_result_message])"

subsection \<open>The script\<close>

definition page_head :: "st_call list" where
  "page_head =
     [St_set_page_config (lit ''AI Meme Debugger'') [0x1F41E],
      St_title ([0x1F41E] @ lit '' AI Meme Generator (Fixed)''),
      St_header (lit ''Settings'')]"

text \<open>
  The result is the trace and the exception that leaves \<open>main\<close>, if one does.
  \<open>except Exception\<close> around the agent call handles an instance of \<open>Exception\<close>
  with the \<open>Critical Error\<close> display; any other exception is not handled.
\<close>

definition main :: "(nat \<Rightarrow> bool) \<Rightarrow> world \<Rightarrow> session \<Rightarrow> st_call list \<times> pyexc option" where
  "main w env s =
     (let api_key = text_input [] (api_key_input s);
          model = selectbox model_options (model_select s);
          is_cloud = (platform_system env = lit ''Linux'');
          headless = checkbox is_cloud (headless_check s);
          query = text_input (lit ''Programmers working on friday'') (meme_query_input s)
      in if run_button s then
           if api_key = [] then
             (page_head @ [St_error (lit ''Need API Key''), St_stop], None)
           else
             (let widgets = [St_empty, St_expander ([0x1F4DD] @ lit '' Live Logs''),
                             St_spinner (lit ''Agent is working...'')];
                  (trace, outcome) = run_agent_with_debug env query model api_key headless;
                  call = Asyncio_run query model api_key headless trace
              in case outcome of
                   Inr (result, errors) \<Rightarrow>
                     (page_head @ widgets @ [call, St_code (captured_stdout env)]
                        @ render_result w result errors, None)
                 | Inl e \<Rightarrow>
                     if isinstance_Exception e then
                       (page_head @ widgets
                          @ [call, St_error (lit ''Critical Error: '' @ str_exc e)], None)
                     else (page_head @ widgets @ [call], Some e))
         else (page_head, None))"

subsection \<open>Concrete runs\<close>

text \<open>
  A world on Linux in which every call but \<open>agent.run()\<close> returns, with a given outcome
  of \<open>agent.run()\<close>; the world in which the agent returns a result with an image link;
  and the world in which \<open>Agent(...)\<close> raises. The session: the user has entered a key,
  chosen the second model, left the checkbox and the prompt untouched and clicked the
  button.
\<close>

definition quiet_world :: "run_outcome \<Rightarrow> world" where
  "quiet_world r =
     \<lparr>chat_openai_raises = (\<lambda>llm. None), browser_raises = (\<lambda>cfg. None),
      agent_raises = (\<lambda>a. None), info_raises = (\<lambda>msg. None),
      agent_run = (\<lambda>a. r), close_raises = (\<lambda>cfg. None),
      platform_system = lit ''Linux'', captured_stdout = lit ''step 1''\<rparr>"

definition example_world :: world where
  "example_world =
     quiet_world (Run_returns (History (Inr (Some (lit ''https://i.imgflip.com/9x.jpg'')))))"

definition agent_fails_world :: world where
  "agent_fails_world =
     (quiet_world (Run_returns (History (Inr None))))
       \<lparr>agent_raises := (\<lambda>a. Some (PyExc True (lit ''unsupported model'')))\<rparr>"

definition example_session :: session where
  "example_session = \<lparr>api_key_input = Some (lit ''sk-1''), model_select = 1,
      headless_check = None, meme_query_input = None, run_button = True\<rparr>"

section \<open>The calls of \<open>run_agent_with_debug\<close>\<close>

lemma setup_calls_returns:
  "setup_returns env q mc k h \<Longrightarrow>
     setup_calls env (make_llm mc k) \<lparr>cfg_headless = h\<rparr> (the_agent q mc k h) (launch_info h)
       = (setup_trace q mc k h, None)"
  by (simp add: setup_returns_def setup_calls_def setup_trace_def)

lemma setup_calls_raises:
  "\<not> setup_returns env q mc k h \<Longrightarrow>
     \<exists>t e. setup_calls env (make_llm mc k) \<lparr>cfg_headless = h\<rparr> (the_agent q mc k h)
              (launch_info h) = (t, Some e)
           \<and> Await_agent_run \<notin> set t \<and> Await_browser_close \<notin> set t
           \<and> hd t = New_ChatOpenAI (make_llm mc k) \<and> t \<noteq> []
           \<and> (\<forall>c. New_Browser c \<in> set t \<longrightarrow> c = \<lparr>cfg_headless = h\<rparr>)"
  by (auto simp: setup_returns_def setup_calls_def split: option.splits)

lemma run_setup_returns:
  "setup_returns env q mc k h \<Longrightarrow>
     run_agent_with_debug env q mc k h =
       (setup_trace q mc k h @ fst (try_except env (the_agent q mc k h))
          @ [Await_browser_close],
        case close_raises env \<lparr>cfg_headless = h\<rparr> of
          Some c \<Rightarrow> Inl c
        | None \<Rightarrow> snd (try_except env (the_agent q mc k h)))"
  using setup_calls_returns [of env q mc k h]
  by (auto simp: run_agent_with_debug_def the_agent_def finally_close_def Let_def
        split: prod.splits option.splits)

lemma run_setup_raises:
  assumes "\<not> setup_returns env q mc k h"
  shows "\<exists>t e. run_agent_with_debug env q mc k h = (t, Inl e)
           \<and> Await_agent_run \<notin> set t \<and> Await_browser_close \<notin> set t
           \<and> hd t = New_ChatOpenAI (make_llm mc k) \<and> t \<noteq> []
           \<and> (\<forall>c. New_Browser c \<in> set t \<longrightarrow> c = \<lparr>cfg_headless = h\<rparr>)"
proof -
  from setup_calls_raises [OF assms] obtain t e where
    sc: "setup_calls env (make_llm mc k) \<lparr>cfg_headless = h\<rparr> (the_agent q mc k h)
              (launch_info h) = (t, Some e)"
    and rest: "Await_agent_run \<notin> set t \<and> Await_browser_close \<notin> set t
           \<and> hd t = New_ChatOpenAI (make_llm mc k) \<and> t \<noteq> []
           \<and> (\<forall>c. New_Browser c \<in> set t \<longrightarrow> c = \<lparr>cfg_headless = h\<rparr>)"
    by blast
  from sc have "run_agent_with_debug env q mc k h = (t, Inl e)"
    by (simp add: run_agent_with_debug_def the_agent_def Let_def)
  with rest show ?thesis by blast
qed

lemma fst_try_except:
  "fst (try_except env a) = [Await_agent_run]
   \<or> fst (try_except env a) = [Await_agent_run, History_final_result]"
  by (simp add: try_except_def Let_def split: run_outcome.splits sum.splits)

lemma snd_try_except:
  "snd (try_except env a) =
     (case agent_run env a of
        Run_raises e \<Rightarrow> if isinstance_Exception e then Inr (None, [str_exc e]) else Inl e
      | Run_returns hist \<Rightarrow>
          (case final_result hist of
             Inr v \<Rightarrow> Inr (v, [])
           | Inl e \<Rightarrow> if isinstance_Exception e then Inr (None, [str_exc e]) else Inl e))"
  by (simp add: try_except_def Let_def split: run_outcome.splits sum.splits)

lemma first_call_is_ChatOpenAI:
  "New_ChatOpenAI (make_llm mc k) \<in> set (fst (run_agent_with_debug env q mc k h))"
proof (cases "setup_returns env q mc k h")
  case True
  then show ?thesis by (simp add: run_setup_returns setup_trace_def)
next
  case False
  from run_setup_raises [OF this] obtain t e where
    "run_agent_with_debug env q mc k h = (t, Inl e)" "hd t = New_ChatOpenAI (make_llm mc k)"
    "t \<noteq> []" by blast
  then show ?thesis by (metis fst_conv hd_in_set)
qed

lemma llm_of_make_llm:
  "(llm_model (make_llm mc k), temperature (make_llm mc k)) = configure_model mc"
  by (cases "configure_model mc") (simp add: make_llm_def)

lemma browser_configs_in_trace:
  "New_Browser c \<in> set (fst (run_agent_with_debug env q mc k h)) \<Longrightarrow> c = \<lparr>cfg_headless = h\<rparr>"
proof (cases "setup_returns env q mc k h")
  case True
  assume "New_Browser c \<in> set (fst (run_agent_with_debug env q mc k h))"
  with True fst_try_except [of env "the_agent q mc k h"] show ?thesis
    by (auto simp: run_setup_returns setup_trace_def)
next
  case False
  assume a: "New_Browser c \<in> set (fst (run_agent_with_debug env q mc k h))"
  from run_setup_raises [OF False] a show ?thesis by auto
qed

lemma browser_in_trace:
  "chat_openai_raises env (make_llm mc k) = None \<Longrightarrow>
     New_Browser \<lparr>cfg_headless = h\<rparr> \<in> set (fst (run_agent_with_debug env q mc k h))"
  by (simp add: run_agent_with_debug_def setup_calls_def try_except_def finally_close_def
        Let_def split: option.splits prod.splits run_outcome.splits sum.splits)

lemma setup_returns_quiet: "setup_returns (quiet_world r) q mc k h"
  by (simp add: setup_returns_def quiet_world_def)

lemma quiet_world_sel:
  "close_raises (quiet_world r) cfg = None" "agent_run (quiet_world r) a = r"
  "browser_raises (quiet_world r) cfg = None"
  "platform_system (quiet_world r) = lit ''Linux''"
  "captured_stdout (quiet_world r) = lit ''step 1''"
  by (simp_all add: quiet_world_def)

section \<open>Model selection\<close>

lemma lit_Claude_neq_Deepseek: "lit ''Claude'' \<noteq> lit ''Deepseek''"
  by (simp add: lit_def)

text \<open>
  C1. For every model-choice string the (model identifier, temperature) pair is
  selected by the fixed lookup table of the spec, and the selection is total:
  \<open>"Claude"\<close> gives \<open>("meta-llama/llama-3.3-70b-instruct:free", 0.7)\<close>, \<open>"Deepseek"\<close>
  gives \<open>("nex-agi/deepseek-v3.1-nex-n1:free", 0.3)\<close>, every other string gives
  \<open>("openai/gpt-oss-120b:free", 0.1)\<close>; and this pair is what
  \<open>run_agent_with_debug\<close> hands to \<open>ChatOpenAI\<close>, whatever the other arguments are
  and whatever the outside world does.
\<close>

theorem configure_model_table:
  "configure_model mc = spec_model_lookup mc
   \<and> configure_model (lit ''Claude'') = (lit ''meta-llama/llama-3.3-70b-instruct:free'', 0.7)
   \<and> configure_model (lit ''Deepseek'') = (lit ''nex-agi/deepseek-v3.1-nex-n1:free'', 0.3)
   \<and> (mc \<noteq> lit ''Claude'' \<and> mc \<noteq> lit ''Deepseek''
        \<longrightarrow> configure_model mc = (lit ''openai/gpt-oss-120b:free'', 0.1))
   \<and> (\<exists>l. New_ChatOpenAI l \<in> set (fst (run_agent_with_debug env q mc k h))
          \<and> (llm_model l, temperature l) = configure_model mc)"
proof (intro conjI)
  show "configure_model mc = spec_model_lookup mc"
    by (simp add: configure_model_def spec_model_lookup_def spec_model_table_def)
  show "configure_model (lit ''Claude'')
          = (lit ''meta-llama/llama-3.3-70b-instruct:free'', 0.7)"
    by (simp add: configure_model_def)
  show "configure_model (lit ''Deepseek'')
          = (lit ''nex-agi/deepseek-v3.1-nex-n1:free'', 0.3)"
    using lit_Claude_neq_Deepseek by (simp add: configure_model_def)
  show "mc \<noteq> lit ''Claude'' \<and> mc \<noteq> lit ''Deepseek''
          \<longrightarrow> configure_model mc = (lit ''openai/gpt-oss-120b:free'', 0.1)"
    by (simp add: configure_model_def)
  show "\<exists>l. New_ChatOpenAI l \<in> set (fst (run_agent_with_debug env q mc k h))
          \<and> (llm_model l, temperature l) = configure_model mc"
    using first_call_is_ChatOpenAI [of mc k env q h] llm_of_make_llm [of mc k] by blast
qed

theorem configure_model_table_witness:
  "lit ''OpenAI'' \<noteq> lit ''Claude'' \<and> lit ''OpenAI'' \<noteq> lit ''Deepseek''
   \<and> configure_model (lit ''OpenAI'') = (lit ''openai/gpt-oss-120b:free'', 0.1)"
proof -
  have h: "lit ''OpenAI'' \<noteq> lit ''Claude'' \<and> lit ''OpenAI'' \<noteq> lit ''Deepseek''"
    by (simp add: lit_def)
  from configure_model_table [of "lit ''OpenAI''"] h show ?thesis
    by blast
qed

section \<open>The returned pair and the browser\<close>

text \<open>
  C2, as stated, fails: an exception raised by \<open>agent.run()\<close> that is not an instance
  of \<open>Exception\<close> (here a \<open>KeyboardInterrupt\<close>, whose \<open>str\<close> is empty) is not handled
  by \<open>except Exception\<close> and leaves \<open>run_agent_with_debug\<close>, in a world where every
  other call returns; no pair is returned.
\<close>

theorem run_agent_with_debug_pair_counterexample:
  "setup_returns (quiet_world (Run_raises (PyExc False []))) (lit ''cats'') (lit ''OpenAI'')
     (lit ''sk-1'') True
   \<and> snd (run_agent_with_debug (quiet_world (Run_raises (PyExc False []))) (lit ''cats'')
          (lit ''OpenAI'') (lit ''sk-1'') True) = Inl (PyExc False [])"
  by (simp add: setup_returns_quiet run_setup_returns snd_try_except quiet_world_sel)

text \<open>
  C2, amended. Take an invocation in which the four calls before the \<open>try\<close> statement
  return. If \<open>browser.close()\<close> returns: when \<open>agent.run()\<close> raises an instance of
  \<open>Exception\<close>, the function returns \<open>None\<close> and the one-element list of \<open>str(e)\<close>; when
  \<open>agent.run()\<close> returns and \<open>history.final_result()\<close> returns, it returns that final
  result and the empty list; when \<open>final_result()\<close> raises an instance of \<open>Exception\<close>,
  it returns \<open>None\<close> and the one-element list of \<open>str(e)\<close>; an exception of
  \<open>agent.run()\<close> or \<open>final_result()\<close> that is not an instance of \<open>Exception\<close> leaves
  the function. In each case the trace is the set-up calls, the agent run (and
  \<open>final_result()\<close> if the run returned) and the close of the browser, last. If
  \<open>browser.close()\<close> raises, its exception leaves the function, the close still being
  the last call.
\<close>

theorem run_agent_with_debug_pair:
  assumes "setup_returns env q mc k h"
  shows
  "(close_raises env \<lparr>cfg_headless = h\<rparr> = None
      \<and> agent_run env (the_agent q mc k h) = Run_raises e \<and> isinstance_Exception e \<longrightarrow>
      run_agent_with_debug env q mc k h =
        (setup_trace q mc k h @ [Await_agent_run, Await_browser_close],
         Inr (None, [str_exc e])))
   \<and> (close_raises env \<lparr>cfg_headless = h\<rparr> = None
      \<and> agent_run env (the_agent q mc k h) = Run_returns hist
      \<and> final_result hist = Inr v \<longrightarrow>
      run_agent_with_debug env q mc k h =
        (setup_trace q mc k h @ [Await_agent_run, History_final_result, Await_browser_close],
         Inr (v, [])))
   \<and> (close_raises env \<lparr>cfg_headless = h\<rparr> = None
      \<and> agent_run env (the_agent q mc k h) = Run_returns hist
      \<and> final_result hist = Inl e \<and> isinstance_Exception e \<longrightarrow>
      run_agent_with_debug env q mc k h =
        (setup_trace q mc k h @ [Await_agent_run, History_final_result, Await_browser_close],
         Inr (None, [str_exc e])))
   \<and> (close_raises env \<lparr>cfg_headless = h\<rparr> = None
      \<and> agent_run env (the_agent q mc k h) = Run_raises e \<and> \<not> isinstance_Exception e \<longrightarrow>
      run_agent_with_debug env q mc k h =
        (setup_trace q mc k h @ [Await_agent_run, Await_browser_close], Inl e))
   \<and> (close_raises env \<lparr>cfg_headless = h\<rparr> = None
      \<and> agent_run env (the_agent q mc k h) = Run_returns hist
      \<and> final_result hist = Inl e \<and> \<not> isinstance_Exception e \<longrightarrow>
      run_agent_with_debug env q mc k h =
        (setup_trace q mc k h @ [Await_agent_run, History_final_result, Await_browser_close],
         Inl e))
   \<and> (close_raises env \<lparr>cfg_headless = h\<rparr> = Some c \<longrightarrow>
      snd (run_agent_with_debug env q mc k h) = Inl c
      \<and> last (fst (run_agent_with_debug env q mc k h)) = Await_browser_close)"
proof (intro conjI impI)
  assume "close_raises env \<lparr>cfg_headless = h\<rparr> = None
      \<and> agent_run env (the_agent q mc k h) = Run_raises e \<and> isinstance_Exception e"
  then show "run_agent_with_debug env q mc k h =
        (setup_trace q mc k h @ [Await_agent_run, Await_browser_close],
         Inr (None, [str_exc e]))"
    by (simp add: run_setup_returns [OF assms] try_except_def)
next
  assume "close_raises env \<lparr>cfg_headless = h\<rparr> = None
      \<and> agent_run env (the_agent q mc k h) = Run_returns hist
      \<and> final_result hist = Inr v"
  then show "run_agent_with_debug env q mc k h =
        (setup_trace q mc k h @ [Await_agent_run, History_final_result, Await_browser_close],
         Inr (v, []))"
    by (simp add: run_setup_returns [OF assms] try_except_def)
next
  assume "close_raises env \<lparr>cfg_headless = h\<rparr> = None
      \<and> agent_run env (the_agent q mc k h) = Run_returns hist
      \<and> final_result hist = Inl e \<and> isinstance_Exception e"
  then show "run_agent_with_debug env q mc k h =
        (setup_trace q mc k h @ [Await_agent_run, History_final_result, Await_browser_close],
         Inr (None, [str_exc e]))"
    by (simp add: run_setup_returns [OF assms] try_except_def)
next
  assume "close_raises env \<lparr>cfg_headless = h\<rparr> = None
      \<and> agent_run env (the_agent q mc k h) = Run_raises e \<and> \<not> isinstance_Exception e"
  then show "run_agent_with_debug env q mc k h =
        (setup_trace q mc k h @ [Await_agent_run, Await_browser_close], Inl e)"
    by (simp add: run_setup_returns [OF assms] try_except_def)
next
  assume "close_raises env \<lparr>cfg_headless = h\<rparr> = None
      \<and> agent_run env (the_agent q mc k h) = Run_returns hist
      \<and> final_result hist = Inl e \<and> \<not> isinstance_Exception e"
  then show "run_agent_with_debug env q mc k h =
        (setup_trace q mc k h @ [Await_agent_run, History_final_result, Await_browser_close],
         Inl e)"
    by (simp add: run_setup_returns [OF assms] try_except_def)
next
  assume c: "close_raises env \<lparr>cfg_headless = h\<rparr> = Some c"
  then show "snd (run_agent_with_debug env q mc k h) = Inl c"
    by (simp add: run_setup_returns [OF assms])
  show "last (fst (run_agent_with_debug env q mc k h)) = Await_browser_close"
    by (simp add: run_setup_returns [OF assms])
qed

theorem run_agent_with_debug_pair_witness:
  "setup_returns (quiet_world (Run_raises (PyExc True (lit ''boom'')))) (lit ''cats'')
     (lit ''OpenAI'') (lit ''sk-1'') True
   \<and> run_agent_with_debug (quiet_world (Run_raises (PyExc True (lit ''boom'')))) (lit ''cats'')
       (lit ''OpenAI'') (lit ''sk-1'') True
     = (setup_trace (lit ''cats'') (lit ''OpenAI'') (lit ''sk-1'') True
          @ [Await_agent_run, Await_browser_close], Inr (None, [lit ''boom'']))
   \<and> run_agent_with_debug (quiet_world (Run_raises (PyExc False []))) (lit ''cats'')
       (lit ''OpenAI'') (lit ''sk-1'') True
     = (setup_trace (lit ''cats'') (lit ''OpenAI'') (lit ''sk-1'') True
          @ [Await_agent_run, Await_browser_close], Inl (PyExc False []))
   \<and> run_agent_with_debug (quiet_world (Run_returns (History (Inr (Some (lit ''done''))))))
       (lit ''cats'') (lit ''OpenAI'') (lit ''sk-1'') True
     = (setup_trace (lit ''cats'') (lit ''OpenAI'') (lit ''sk-1'') True
          @ [Await_agent_run, History_final_result, Await_browser_close],
        Inr (Some (lit ''done''), []))"
proof -
  note c = quiet_world_sel(1) and r = quiet_world_sel(2)
  from run_agent_with_debug_pair [OF setup_returns_quiet,
         of "Run_raises (PyExc True (lit ''boom''))" True "lit ''cats''" "lit ''OpenAI''"
            "lit ''sk-1''" "PyExc True (lit ''boom'')"]
       run_agent_with_debug_pair [OF setup_returns_quiet,
         of "Run_raises (PyExc False [])" True "lit ''cats''" "lit ''OpenAI''"
            "lit ''sk-1''" "PyExc False []"]
       run_agent_with_debug_pair [OF setup_returns_quiet,
         of "Run_returns (History (Inr (Some (lit ''done''))))" True "lit ''cats''"
            "lit ''OpenAI''" "lit ''sk-1''" _ "History (Inr (Some (lit ''done'')))"
            "Some (lit ''done'')"]
       c r setup_returns_quiet
  show ?thesis by simp
qed

text \<open>
  C5. The returned pair never has both a result and errors: when
  \<open>run_agent_with_debug\<close> returns a pair whose error list is not empty, the result
  component is \<open>None\<close>.
\<close>

theorem result_and_errors_exclusive:
  "snd (run_agent_with_debug env q mc k h) = Inr (r, errs) \<Longrightarrow> errs \<noteq> [] \<Longrightarrow> r = None"
proof (cases "setup_returns env q mc k h")
  case True
  assume "snd (run_agent_with_debug env q mc k h) = Inr (r, errs)" "errs \<noteq> []"
  with True show ?thesis
    by (auto simp: run_setup_returns snd_try_except
          split: option.splits run_outcome.splits sum.splits if_splits)
next
  case False
  assume a: "snd (run_agent_with_debug env q mc k h) = Inr (r, errs)"
  from run_setup_raises [OF False] a show ?thesis by auto
qed

theorem result_and_errors_exclusive_witness:
  "snd (run_agent_with_debug (quiet_world (Run_raises (PyExc True (lit ''timeout''))))
          (lit ''dogs'') (lit ''Deepseek'') (lit ''sk-2'') True) = Inr (None, [lit ''timeout''])
   \<and> [lit ''timeout''] \<noteq> []"
proof -
  have h1: "snd (run_agent_with_debug (quiet_world (Run_raises (PyExc True (lit ''timeout''))))
              (lit ''dogs'') (lit ''Deepseek'') (lit ''sk-2'') True)
            = Inr (None, [lit ''timeout''])"
    by (simp add: setup_returns_quiet run_setup_returns snd_try_except quiet_world_sel)
  have h2: "[lit ''timeout''] \<noteq> []" by simp
  have "(None :: pystr option) = None"
    by (rule result_and_errors_exclusive [OF h1 h2])
  with h1 h2 show ?thesis by simp
qed

text \<open>
  C9, as stated, fails: \<open>Browser(...)\<close> is called before \<open>Agent(...)\<close> and
  \<open>status_box.info(...)\<close>, and the \<open>try\<close> statement starts after them. In a world where
  \<open>Agent(...)\<close> raises, the invocation has created a browser and never closes it.
\<close>

theorem browser_closed_once_counterexample:
  "browser_raises agent_fails_world \<lparr>cfg_headless = True\<rparr> = None
   \<and> fst (run_agent_with_debug agent_fails_world (lit ''cats'') (lit ''OpenAI'') (lit ''sk-1'')
            True)
     = [New_ChatOpenAI (make_llm (lit ''OpenAI'') (lit ''sk-1'')),
        New_Browser \<lparr>cfg_headless = True\<rparr>,
        New_Agent (the_agent (lit ''cats'') (lit ''OpenAI'') (lit ''sk-1'') True)]
   \<and> Await_browser_close
       \<notin> set (fst (run_agent_with_debug agent_fails_world (lit ''cats'') (lit ''OpenAI'')
                     (lit ''sk-1'') True))"
  by (simp add: run_agent_with_debug_def setup_calls_def agent_fails_world_def quiet_world_def
        the_agent_def Let_def)

text \<open>
  C9, amended. Every invocation of \<open>run_agent_with_debug\<close> that gets as far as awaiting
  the agent run (which it does exactly when the four calls before the \<open>try\<close> statement
  return) has created one browser and calls \<open>browser.close()\<close> exactly once, as its
  last call, on every path from there: whether \<open>agent.run()\<close> or \<open>final_result()\<close>
  return or raise, and whatever they raise. The close is never called without the
  agent run, and every invocation that returns a pair has awaited the agent run.
\<close>

theorem browser_closed_once:
  "(Await_agent_run \<in> set (fst (run_agent_with_debug env q mc k h)) \<longrightarrow>
      browser_raises env \<lparr>cfg_headless = h\<rparr> = None
      \<and> count_list (fst (run_agent_with_debug env q mc k h))
          (New_Browser \<lparr>cfg_headless = h\<rparr>) = 1
      \<and> count_list (fst (run_agent_with_debug env q mc k h)) Await_browser_close = 1
      \<and> last (fst (run_agent_with_debug env q mc k h)) = Await_browser_close)
   \<and> (Await_agent_run \<in> set (fst (run_agent_with_debug env q mc k h))
        \<longleftrightarrow> setup_returns env q mc k h)
   \<and> (Await_browser_close \<in> set (fst (run_agent_with_debug env q mc k h))
        \<longrightarrow> Await_agent_run \<in> set (fst (run_agent_with_debug env q mc k h)))
   \<and> (snd (run_agent_with_debug env q mc k h) = Inr p
        \<longrightarrow> Await_agent_run \<in> set (fst (run_agent_with_debug env q mc k h)))"
proof (cases "setup_returns env q mc k h")
  case True
  then have b: "browser_raises env \<lparr>cfg_headless = h\<rparr> = None"
    by (simp add: setup_returns_def)
  from True fst_try_except [of env "the_agent q mc k h"] b show ?thesis
    by (auto simp: run_setup_returns setup_trace_def)
next
  case False
  from run_setup_raises [OF False] obtain t e where
    "run_agent_with_debug env q mc k h = (t, Inl e)"
    "Await_agent_run \<notin> set t" "Await_browser_close \<notin> set t" by blast
  with False show ?thesis by simp
qed

theorem browser_closed_once_witness:
  "Await_agent_run \<in> set (fst (run_agent_with_debug example_world (lit ''cats'')
       (lit ''Claude'') (lit ''sk-1'') True))
   \<and> count_list (fst (run_agent_with_debug example_world (lit ''cats'') (lit ''Claude'')
        (lit ''sk-1'') True)) Await_browser_close = 1
   \<and> last (fst (run_agent_with_debug example_world (lit ''cats'') (lit ''Claude'')
        (lit ''sk-1'') True)) = Await_browser_close"
proof -
  have "setup_returns example_world (lit ''cats'') (lit ''Claude'') (lit ''sk-1'') True"
    by (simp add: example_world_def setup_returns_quiet)
  with browser_closed_once [of example_world "lit ''cats''" "lit ''Claude''" "lit ''sk-1''" True]
  show ?thesis by blast
qed

section \<open>The task\<close>

text \<open>
  C4. The claim is that the query is substituted both in the opening line and in
  step 2. On the query \<open>cats\<close> the task carries the query in the opening line only;
  step 2 reads \<open>related to '{query}'\<close>, the placeholder itself.
\<close>

theorem task_of_cats:
  "task_of (lit ''cats'') =
     lit ''Generate a meme about: 'cats'.\<newline>''
     @ lit ''STRICT STEPS:\<newline>''
     @ lit ''1. GO TO 'https://imgflip.com/memetemplates'.\<newline>''
     @ lit ''2. TYPE a simple keyword related to '{query}' into the search box.\<newline>''
     @ lit ''3. CLICK on the first matching template image.\<newline>''
     @ lit ''4. WAIT for the 'Caption this Meme' button or text boxes to load.\<newline>''
     @ lit ''5. CLICK inside the Top Text box and TYPE a setup.\<newline>''
     @ lit ''6. CLICK inside the Bottom Text box and TYPE a punchline.\<newline>''
     @ lit ''7. CLICK 'Generate Meme'.\<newline>''
     @ lit ''8. EXTRACT and RETURN the image URL starting with 'https://i.imgflip.com'.\<newline>''"
  by (simp add: task_of_def lit_def)

section \<open>The matcher against the spec's pattern\<close>










section \<open>The script and its one agent call\<close>

lemma no_call_in_render_result: "Asyncio_run q m k h t \<notin> set (render_result w result errs)"
  by (simp add: render_result_def split: option.splits)

lemma no_call_in_page_head: "Asyncio_run q m k h t \<notin> set page_head"
  by (simp add: page_head_def)

lemma main_not_clicked: "\<not> run_button s \<Longrightarrow> main w env s = (page_head, None)"
  by (simp add: main_def Let_def)

lemma main_need_key:
  "run_button s \<Longrightarrow> text_input [] (api_key_input s) = [] \<Longrightarrow>
     main w env s = (page_head @ [St_error (lit ''Need API Key''), St_stop], None)"
  by (simp add: main_def Let_def)

lemma main_calls_agent:
  assumes "run_button s" and "text_input [] (api_key_input s) \<noteq> []"
  shows "\<exists>pre post.
     fst (main w env s) =
       pre @ [Asyncio_run (text_input (lit ''Programmers working on friday'') (meme_query_input s))
                (selectbox model_options (model_select s))
                (text_input [] (api_key_input s))
                (checkbox (platform_system env = lit ''Linux'') (headless_check s))
                (fst (run_agent_with_debug env
                   (text_input (lit ''Programmers working on friday'') (meme_query_input s))
                   (selectbox model_options (model_select s))
                   (text_input [] (api_key_input s))
                   (checkbox (platform_system env = lit ''Linux'') (headless_check s))))] @ post
     \<and> (\<forall>q m k h t. Asyncio_run q m k h t \<notin> set pre \<and> Asyncio_run q m k h t \<notin> set post)"
proof -
  let ?q = "text_input (lit ''Programmers working on friday'') (meme_query_input s)"
  let ?m = "selectbox model_options (model_select s)"
  let ?k = "text_input [] (api_key_input s)"
  let ?h = "checkbox (platform_system env = lit ''Linux'') (headless_check s)"
  obtain t out where r: "run_agent_with_debug env ?q ?m ?k ?h = (t, out)"
    by (cases "run_agent_with_debug env ?q ?m ?k ?h")
  let ?pre = "page_head @ [St_empty, St_expander ([0x1F4DD] @ lit '' Live Logs''),
                             St_spinner (lit ''Agent is working...'')]"
  have pre: "\<forall>q m k h t. Asyncio_run q m k h t \<notin> set ?pre"
    by (simp add: no_call_in_page_head)
  show ?thesis
  proof (cases out)
    case (Inr p)
    obtain result errs where p: "p = (result, errs)" by (cases p)
    have "fst (main w env s) = ?pre @ [Asyncio_run ?q ?m ?k ?h t]
             @ (St_code (captured_stdout env) # render_result w result errs)"
      using assms r Inr p by (simp add: main_def Let_def)
    moreover have "\<forall>q m k h t. Asyncio_run q m k h t
                     \<notin> set (St_code (captured_stdout env) # render_result w result errs)"
      by (simp add: no_call_in_render_result)
    ultimately show ?thesis using pre r by (metis fst_conv)
  next
    case (Inl e)
    show ?thesis
    proof (cases "isinstance_Exception e")
      case True
      have "fst (main w env s) = ?pre @ [Asyncio_run ?q ?m ?k ?h t]
             @ [St_error (lit ''Critical Error: '' @ str_exc e)]"
        using assms r Inl True by (simp add: main_def Let_def)
      moreover have "\<forall>q m k h t. Asyncio_run q m k h t
                     \<notin> set [St_error (lit ''Critical Error: '' @ str_exc e)]"
        by simp
      ultimately show ?thesis using pre r by (metis fst_conv)
    next
      case False
      have "fst (main w env s) = ?pre @ [Asyncio_run ?q ?m ?k ?h t] @ []"
        using assms r Inl False by (simp add: main_def Let_def)
      moreover have "\<forall>q m k h t. Asyncio_run q m k h t \<notin> set ([] :: st_call list)"
        by simp
      ultimately show ?thesis using pre r by (metis fst_conv)
    qed
  qed
qed

lemma main_call_args:
  assumes "Asyncio_run q m k h t \<in> set (fst (main w env s))"
  shows "run_button s \<and> k = text_input [] (api_key_input s) \<and> k \<noteq> []
         \<and> q = text_input (lit ''Programmers working on friday'') (meme_query_input s)
         \<and> m = selectbox model_options (model_select s)
         \<and> h = checkbox (platform_system env = lit ''Linux'') (headless_check s)
         \<and> t = fst (run_agent_with_debug env q m k h)"
proof -
  have b: "run_button s"
    using assms main_not_clicked [of s w env] no_call_in_page_head by (cases "run_button s") auto
  have k: "text_input [] (api_key_input s) \<noteq> []"
  proof
    assume "text_input [] (api_key_input s) = []"
    from main_need_key [OF b this, of w env] assms show False
      by (simp add: no_call_in_page_head)
  qed
  from main_calls_agent [OF b k, of w env] assms k b show ?thesis by auto
qed

lemma example_call:
  "Asyncio_run (lit ''Programmers working on friday'') (lit ''Claude'') (lit ''sk-1'') True
      (fst (run_agent_with_debug example_world
              (lit ''Programmers working on friday'') (lit ''Claude'') (lit ''sk-1'') True))
     \<in> set (fst (main ascii_word example_world example_session))"
proof -
  have b: "run_button example_session" by (simp add: example_session_def)
  have k: "text_input [] (api_key_input example_session) \<noteq> []"
    by (simp add: example_session_def text_input_def lit_def)
  from main_calls_agent [OF b k, of ascii_word example_world] show ?thesis
    by (auto simp: example_session_def example_world_def quiet_world_sel text_input_def
          selectbox_def model_options_def checkbox_def)
qed

text \<open>
  The handler of \<open>main\<close> around the agent call is reached: when \<open>Agent(...)\<close> raises
  an instance of \<open>Exception\<close>, \<open>main\<close> displays it as a critical error.
\<close>

lemma critical_error_shown:
  "St_error (lit ''Critical Error: unsupported model'')
     \<in> set (fst (main ascii_word agent_fails_world example_session))"
  by (simp add: main_def run_agent_with_debug_def setup_calls_def agent_fails_world_def
        quiet_world_def example_session_def text_input_def lit_def Let_def)

lemma example_pair:
  "snd (run_agent_with_debug example_world
          (text_input (lit ''Programmers working on friday'') (meme_query_input example_session))
          (selectbox model_options (model_select example_session))
          (text_input [] (api_key_input example_session))
          (checkbox (platform_system example_world = lit ''Linux'') (headless_check example_session)))
     = Inr (Some (lit ''https://i.imgflip.com/9x.jpg''), [])"
  by (simp add: example_world_def setup_returns_quiet run_setup_returns snd_try_except
        quiet_world_sel)

lemma lit_messages_distinct: "no_image_message \<noteq> no_result_message"
  by (simp add: no_image_message_def no_result_message_def lit_def)

section \<open>Rendering\<close>




text \<open>
  C6, as stated, fails on the empty result string: the result is not \<open>None\<close>, yet no
  success message is shown and the \<open>returned no result\<close> warning is.
\<close>

theorem render_cases_counterexample:
  "Some [] \<noteq> (None :: pystr option)
   \<and> St_success (lit ''Agent Finished!'') \<notin> set (render_result ascii_word (Some []) [])
   \<and> St_warning no_result_message \<in> set (render_result ascii_word (Some []) [])"
  by (simp add: render_result_def)

text \<open>
  C6, amended. After the agent call returns a pair to the button handler, what follows
  the log display is the rendering of that pair: the crash display with the error list
  is shown exactly when the error list is not empty; the success message and the
  result text are shown exactly when the result is neither \<open>None\<close> nor the empty
  string; the \<open>Agent finished but returned no result.\<close> warning is shown exactly when
  the result is \<open>None\<close> or the empty string.
\<close>

theorem render_cases:
  "(St_error crash_message \<in> set (render_result w result errs) \<longleftrightarrow> errs \<noteq> [])
   \<and> (St_json errs \<in> set (render_result w result errs) \<longleftrightarrow> errs \<noteq> [])
   \<and> (St_success (lit ''Agent Finished!'') \<in> set (render_result w result errs)
        \<longleftrightarrow> result \<noteq> None \<and> result \<noteq> Some [])
   \<and> (St_markdown (lit ''### Result:\<newline>'' @ r) \<in> set (render_result w result errs)
        \<longleftrightarrow> result = Some r \<and> r \<noteq> [])
   \<and> (St_warning no_result_message \<in> set (render_result w result errs)
        \<longleftrightarrow> result = None \<or> result = Some [])
   \<and> (run_button s \<and> text_input [] (api_key_input s) \<noteq> []
        \<and> snd (run_agent_with_debug env
                 (text_input (lit ''Programmers working on friday'') (meme_query_input s))
                 (selectbox model_options (model_select s))
                 (text_input [] (api_key_input s))
                 (checkbox (platform_system env = lit ''Linux'') (headless_check s)))
            = Inr (result, errs)
        \<longrightarrow> (\<exists>pre. fst (main w env s) = pre @ [St_code (captured_stdout env)]
                      @ render_result w result errs))"
proof (intro conjI)
  show "St_error crash_message \<in> set (render_result w result errs) \<longleftrightarrow> errs \<noteq> []"
    by (auto simp: render_result_def split: option.splits)
  show "St_json errs \<in> set (render_result w result errs) \<longleftrightarrow> errs \<noteq> []"
    by (auto simp: render_result_def split: option.splits)
  show "St_success (lit ''Agent Finished!'') \<in> set (render_result w result errs)
        \<longleftrightarrow> result \<noteq> None \<and> result \<noteq> Some []"
    by (auto simp: render_result_def split: option.splits)
  show "St_markdown (lit ''### Result:\<newline>'' @ r) \<in> set (render_result w result errs)
        \<longleftrightarrow> result = Some r \<and> r \<noteq> []"
    by (auto simp: render_result_def split: option.splits)
  show "St_warning no_result_message \<in> set (render_result w result errs)
        \<longleftrightarrow> result = None \<or> result = Some []"
    using lit_messages_distinct by (auto simp: render_result_def split: option.splits)
  show "run_button s \<and> text_input [] (api_key_input s) \<noteq> []
        \<and> snd (run_agent_with_debug env
                 (text_input (lit ''Programmers working on friday'') (meme_query_input s))
                 (selectbox model_options (model_select s))
                 (text_input [] (api_key_input s))
                 (checkbox (platform_system env = lit ''Linux'') (headless_check s)))
            = Inr (result, errs)
        \<longrightarrow> (\<exists>pre. fst (main w env s) = pre @ [St_code (captured_stdout env)]
                      @ render_result w result errs)"
    by (auto simp: main_def Let_def split: prod.splits)
qed

theorem render_cases_witness:
  "run_button example_session \<and> text_input [] (api_key_input example_session) \<noteq> []
   \<and> (\<exists>pre. fst (main ascii_word example_world example_session)
          = pre @ [St_code (captured_stdout example_world)]
              @ render_result ascii_word (Some (lit ''https://i.imgflip.com/9x.jpg'')) [])"
proof -
  have b: "run_button example_session" by (simp add: example_session_def)
  have k: "text_input [] (api_key_input example_session) \<noteq> []"
    by (simp add: example_session_def text_input_def lit_def)
  from render_cases [of ascii_word "Some (lit ''https://i.imgflip.com/9x.jpg'')" "[]" "[]"
         example_session example_world] b k example_pair
  show ?thesis by blast
qed

section \<open>The widgets\<close>

text \<open>
  C7. The model dropdown offers exactly the three literals \<open>Deepseek\<close>, \<open>Claude\<close> and
  \<open>OpenAI\<close>, so the model-choice key of every call \<open>main\<close> makes of
  \<open>run_agent_with_debug\<close> is one of them; \<open>run_agent_with_debug\<close> does not validate
  the key: on any string other than \<open>Claude\<close> and \<open>Deepseek\<close> it does exactly what it
  does on \<open>OpenAI\<close>.
\<close>

theorem dropdown_keys:
  "set model_options = {lit ''Deepseek'', lit ''Claude'', lit ''OpenAI''}
   \<and> length model_options = 3
   \<and> (model_select s < length model_options \<longrightarrow>
        (\<forall>q m k h t. Asyncio_run q m k h t \<in> set (fst (main w env s))
            \<longrightarrow> m \<in> {lit ''Deepseek'', lit ''Claude'', lit ''OpenAI''}))
   \<and> (mc \<noteq> lit ''Claude'' \<and> mc \<noteq> lit ''Deepseek'' \<longrightarrow>
        run_agent_with_debug env' q' mc k' h'
          = run_agent_with_debug env' q' (lit ''OpenAI'') k' h')"
proof (intro conjI)
  show set: "set model_options = {lit ''Deepseek'', lit ''Claude'', lit ''OpenAI''}"
    by (simp add: model_options_def)
  show "length model_options = 3"
    by (simp add: model_options_def)
  show "model_select s < length model_options \<longrightarrow>
        (\<forall>q m k h t. Asyncio_run q m k h t \<in> set (fst (main w env s))
            \<longrightarrow> m \<in> {lit ''Deepseek'', lit ''Claude'', lit ''OpenAI''})"
  proof (intro impI allI)
    fix q m k h t
    assume i: "model_select s < length model_options"
      and c: "Asyncio_run q m k h t \<in> set (fst (main w env s))"
    from main_call_args [OF c] have "m = model_options ! model_select s"
      by (simp add: selectbox_def)
    with i have "m \<in> set model_options" by simp
    with set show "m \<in> {lit ''Deepseek'', lit ''Claude'', lit ''OpenAI''}" by simp
  qed
  have "lit ''OpenAI'' \<noteq> lit ''Claude''" "lit ''OpenAI'' \<noteq> lit ''Deepseek''"
    by (simp_all add: lit_def)
  then show "mc \<noteq> lit ''Claude'' \<and> mc \<noteq> lit ''Deepseek'' \<longrightarrow>
        run_agent_with_debug env' q' mc k' h'
          = run_agent_with_debug env' q' (lit ''OpenAI'') k' h'"
    by (simp add: run_agent_with_debug_def make_llm_def configure_model_def)
qed

theorem dropdown_keys_witness:
  "model_select example_session < length model_options
   \<and> Asyncio_run (lit ''Programmers working on friday'') (lit ''Claude'') (lit ''sk-1'') True
      (fst (run_agent_with_debug example_world
              (lit ''Programmers working on friday'') (lit ''Claude'') (lit ''sk-1'') True))
     \<in> set (fst (main ascii_word example_world example_session))
   \<and> lit ''Claude'' \<in> {lit ''Deepseek'', lit ''Claude'', lit ''OpenAI''}
   \<and> lit ''Gemini'' \<noteq> lit ''Claude'' \<and> lit ''Gemini'' \<noteq> lit ''Deepseek''
   \<and> run_agent_with_debug (quiet_world (Run_raises (PyExc True (lit ''boom'')))) (lit ''cats'') (lit ''Gemini'')
        (lit ''sk-1'') False
      = run_agent_with_debug (quiet_world (Run_raises (PyExc True (lit ''boom'')))) (lit ''cats'') (lit ''OpenAI'')
        (lit ''sk-1'') False"
proof -
  have i: "model_select example_session < length model_options"
    by (simp add: example_session_def model_options_def)
  have g: "lit ''Gemini'' \<noteq> lit ''Claude'' \<and> lit ''Gemini'' \<noteq> lit ''Deepseek''"
    by (simp add: lit_def)
  from dropdown_keys [of example_session ascii_word example_world "lit ''Gemini''"
         "quiet_world (Run_raises (PyExc True (lit ''boom'')))" "lit ''cats''" "lit ''sk-1''"
         False]
       i g example_call
  show ?thesis by blast
qed

text \<open>
  C8. When the button is clicked with an empty API key, the handler displays
  \<open>Need API Key\<close>, stops, and makes no agent call; every call of
  \<open>run_agent_with_debug\<close> that \<open>main\<close> makes has the non-empty key of the text input.
\<close>

theorem need_api_key:
  "(run_button s \<and> text_input [] (api_key_input s) = [] \<longrightarrow>
      main w env s = (page_head @ [St_error (lit ''Need API Key''), St_stop], None)
      \<and> (\<forall>q m k h t. Asyncio_run q m k h t \<notin> set (fst (main w env s))))
   \<and> (\<forall>q m k h t. Asyncio_run q m k h t \<in> set (fst (main w env s)) \<longrightarrow>
          k \<noteq> [] \<and> k = text_input [] (api_key_input s)
          \<and> t = fst (run_agent_with_debug env q m k h))"
proof (intro conjI impI allI)
  assume a: "run_button s \<and> text_input [] (api_key_input s) = []"
  then show "main w env s = (page_head @ [St_error (lit ''Need API Key''), St_stop], None)"
    by (simp add: main_need_key)
  fix q m k h t
  show "Asyncio_run q m k h t \<notin> set (fst (main w env s))"
  proof
    assume "Asyncio_run q m k h t \<in> set (fst (main w env s))"
    from main_call_args [OF this] have "k = text_input [] (api_key_input s)" and "k \<noteq> []"
      by blast+
    then have "text_input [] (api_key_input s) \<noteq> []" by blast
    with a show False by simp
  qed
next
  fix q m k h t
  assume c: "Asyncio_run q m k h t \<in> set (fst (main w env s))"
  from main_call_args [OF c]
  show "k \<noteq> []" and "k = text_input [] (api_key_input s)"
    and "t = fst (run_agent_with_debug env q m k h)"
    by blast+
qed

theorem need_api_key_witness:
  "run_button (example_session\<lparr>api_key_input := None\<rparr>)
   \<and> text_input [] (api_key_input (example_session\<lparr>api_key_input := None\<rparr>)) = []
   \<and> main ascii_word example_world (example_session\<lparr>api_key_input := None\<rparr>)
       = (page_head @ [St_error (lit ''Need API Key''), St_stop], None)
   \<and> Asyncio_run (lit ''Programmers working on friday'') (lit ''Claude'') (lit ''sk-1'') True
      (fst (run_agent_with_debug example_world
              (lit ''Programmers working on friday'') (lit ''Claude'') (lit ''sk-1'') True))
     \<in> set (fst (main ascii_word example_world example_session))
   \<and> lit ''sk-1'' \<noteq> []"
proof -
  have h: "run_button (example_session\<lparr>api_key_input := None\<rparr>)
           \<and> text_input [] (api_key_input (example_session\<lparr>api_key_input := None\<rparr>)) = []"
    by (simp add: example_session_def text_input_def)
  from need_api_key [of "example_session\<lparr>api_key_input := None\<rparr>" ascii_word example_world] h
       need_api_key [of example_session ascii_word example_world] example_call
  show ?thesis by blast
qed

text \<open>
  C10. The headless value of every agent call is the value of the checkbox: \<open>True\<close>
  exactly when the platform is \<open>Linux\<close> if the user has not touched it, the value the
  user set otherwise; every browser configuration the call constructs carries exactly
  that value, and the call does construct one unless \<open>ChatOpenAI(...)\<close> has raised
  before; and a click with a key does make the call.
\<close>

theorem headless_passed_through:
  "(Asyncio_run q m k h t \<in> set (fst (main w env s)) \<longrightarrow>
      h = (case headless_check s of
             None \<Rightarrow> platform_system env = lit ''Linux''
           | Some b \<Rightarrow> b)
      \<and> (\<forall>c. New_Browser c \<in> set t \<longrightarrow> c = \<lparr>cfg_headless = h\<rparr>)
      \<and> (chat_openai_raises env (make_llm m k) = None
            \<longrightarrow> New_Browser \<lparr>cfg_headless = h\<rparr> \<in> set t))
   \<and> (run_button s \<and> text_input [] (api_key_input s) \<noteq> [] \<longrightarrow>
        (\<exists>q m k t. Asyncio_run q m k
            (case headless_check s of
               None \<Rightarrow> platform_system env = lit ''Linux''
             | Some b \<Rightarrow> b) t \<in> set (fst (main w env s))))"
proof (intro conjI impI)
  assume c: "Asyncio_run q m k h t \<in> set (fst (main w env s))"
  from main_call_args [OF c]
  have h: "h = checkbox (platform_system env = lit ''Linux'') (headless_check s)"
    and t: "t = fst (run_agent_with_debug env q m k h)" by blast+
  from h show "h = (case headless_check s of
             None \<Rightarrow> platform_system env = lit ''Linux''
           | Some b \<Rightarrow> b)" by (simp add: checkbox_def)
  from t show "\<forall>c. New_Browser c \<in> set t \<longrightarrow> c = \<lparr>cfg_headless = h\<rparr>"
    using browser_configs_in_trace by blast
  assume "chat_openai_raises env (make_llm m k) = None"
  from browser_in_trace [OF this, of h q] t
  show "New_Browser \<lparr>cfg_headless = h\<rparr> \<in> set t" by simp
next
  assume a: "run_button s \<and> text_input [] (api_key_input s) \<noteq> []"
  then have "run_button s" "text_input [] (api_key_input s) \<noteq> []" by simp_all
  from main_calls_agent [OF this, of w env]
  show "\<exists>q m k t. Asyncio_run q m k
            (case headless_check s of
               None \<Rightarrow> platform_system env = lit ''Linux''
             | Some b \<Rightarrow> b) t \<in> set (fst (main w env s))"
    by (auto simp: checkbox_def)
qed

theorem headless_passed_through_witness:
  "Asyncio_run (lit ''Programmers working on friday'') (lit ''Claude'') (lit ''sk-1'') True
      (fst (run_agent_with_debug example_world
              (lit ''Programmers working on friday'') (lit ''Claude'') (lit ''sk-1'') True))
     \<in> set (fst (main ascii_word example_world example_session))
   \<and> headless_check example_session = None
   \<and> platform_system example_world = lit ''Linux''
   \<and> chat_openai_raises example_world (make_llm (lit ''Claude'') (lit ''sk-1'')) = None
   \<and> New_Browser \<lparr>cfg_headless = True\<rparr>
       \<in> set (fst (run_agent_with_debug example_world
              (lit ''Programmers working on friday'') (lit ''Claude'') (lit ''sk-1'') True))
   \<and> run_button example_session \<and> text_input [] (api_key_input example_session) \<noteq> []
   \<and> (\<exists>q m k t. Asyncio_run q m k True t
          \<in> set (fst (main ascii_word example_world example_session)))"
proof -
  have b: "run_button example_session \<and> text_input [] (api_key_input example_session) \<noteq> []"
    by (simp add: example_session_def text_input_def lit_def)
  have e: "headless_check example_session = None \<and> platform_system example_world = lit ''Linux''"
    by (simp add: example_session_def example_world_def quiet_world_sel)
  have l: "chat_openai_raises example_world (make_llm (lit ''Claude'') (lit ''sk-1'')) = None"
    by (simp add: example_world_def quiet_world_def)
  from headless_passed_through [of "lit ''Programmers working on friday''" "lit ''Claude''"
         "lit ''sk-1''" True _ ascii_word example_world example_session] example_call b e l
  show ?thesis by auto
qed

end
